theory Spec2Isabelle
  imports Complex_Main
begin

section \<open>WASD viewport controls: the camera control filter and its panel\<close>

text \<open>
  A shallow embedding of \<^verbatim>\<open>src/__init__.py\<close>. The Python floats are read as real
  numbers, Qt key identifiers as the integers of the \<^verbatim>\<open>Qt::Key\<close> enumeration, and
  the Maya host (\<^verbatim>\<open>maya.cmds\<close>, the main window) as an explicit record that every
  operation takes and returns. Each call into the host is appended to a log, so that
  "no scene call is made" is a statement about that log.
\<close>

subsection \<open>Keys and events\<close>

type_synonym key = int

definition Key_A :: key where "Key_A = 0x41"
definition Key_D :: key where "Key_D = 0x44"
definition Key_E :: key where "Key_E = 0x45"
definition Key_F :: key where "Key_F = 0x46"
definition Key_Q :: key where "Key_Q = 0x51"
definition Key_S :: key where "Key_S = 0x53"
definition Key_W :: key where "Key_W = 0x57"
definition Key_Alt :: key where "Key_Alt = 0x01000023"

text \<open>
  An event as \<^verbatim>\<open>eventFilter\<close> reads it: its type, and for the two key event types
  the key and the auto-repeat flag. Every other event type is \<open>OtherEvent\<close>.
\<close>

datatype event =
    KeyPress key bool
  | KeyRelease key bool
  | OtherEvent

subsection \<open>Vectors and matrices of the host library\<close>

text \<open>
  \<^verbatim>\<open>om.MVector\<close> is a triple of floats. The operations below are the ones the source
  uses: addition and subtraction (the group instance), \<^verbatim>\<open>length()\<close>,
  \<^verbatim>\<open>normal()\<close>, the product with a scalar and the product of a row vector with the
  upper 3x3 block of an \<^verbatim>\<open>om.MMatrix\<close> (a vector, unlike a point, takes no
  translation). \<^verbatim>\<open>normal()\<close> leaves the zero vector as it is.
\<close>

datatype vec = MVector (vx: real) (vy: real) (vz: real)

instantiation vec :: ab_group_add
begin

definition zero_vec :: vec where
  "zero_vec = MVector 0 0 0"

definition plus_vec :: "vec \<Rightarrow> vec \<Rightarrow> vec" where
  "plus_vec u v = MVector (vx u + vx v) (vy u + vy v) (vz u + vz v)"

definition minus_vec :: "vec \<Rightarrow> vec \<Rightarrow> vec" where
  "minus_vec u v = MVector (vx u - vx v) (vy u - vy v) (vz u - vz v)"

definition uminus_vec :: "vec \<Rightarrow> vec" where
  "uminus_vec u = MVector (- vx u) (- vy u) (- vz u)"

instance
  by standard
     (simp_all add: zero_vec_def plus_vec_def minus_vec_def uminus_vec_def)

end

definition vlength :: "vec \<Rightarrow> real" where
  "vlength v = sqrt (vx v * vx v + vy v * vy v + vz v * vz v)"

definition vscale :: "vec \<Rightarrow> real \<Rightarrow> vec" where
  "vscale v c = MVector (vx v * c) (vy v * c) (vz v * c)"

definition normal :: "vec \<Rightarrow> vec" where
  "normal v = (if vlength v = 0 then v else vscale v (1 / vlength v))"

text \<open>An \<^verbatim>\<open>om.MMatrix\<close> is read by row and column.\<close>

type_synonym matrix = "nat \<Rightarrow> nat \<Rightarrow> real"

definition identity_matrix :: matrix where
  "identity_matrix = (\<lambda>r c. if r = c then 1 else 0)"

definition vmulm :: "vec \<Rightarrow> matrix \<Rightarrow> vec" where
  "vmulm v m =
     MVector (vx v * m 0 0 + vy v * m 1 0 + vz v * m 2 0)
             (vx v * m 0 1 + vy v * m 1 1 + vz v * m 2 1)
             (vx v * m 0 2 + vy v * m 1 2 + vz v * m 2 2)"

subsection \<open>The host\<close>

datatype call =
    GetPanelWithFocus
  | GetPanelTypeOf string
  | ModelEditorCamera string
  | XformQuery string
  | CameraWorldCOI string
  | GetAttrWorldMatrix string
  | XformSet string vec
  | Refresh
  | LookAtSelection
  | FrameSelected
  | InstallEventFilter
  | RemoveEventFilter
  | HeadsUpDisplayCreate
  | HeadsUpDisplayExists
  | HeadsUpDisplayRemove

text \<open>
  What the source asks of Maya and of the main window. \<open>panelWithFocus\<close> is \<open>None\<close>
  when \<^verbatim>\<open>getPanel(withFocus=True)\<close> returns \<^verbatim>\<open>None\<close>. The filter list of the main
  window holds at most one entry for a filter object, so it is a flag here.
  \<open>worldMatrix\<close> is the matrix built from the values of the camera's
  \<^verbatim>\<open>.worldMatrix\<close> attribute. Every host call succeeds.
\<close>

record host =
  panelWithFocus :: "string option"
  panelTypeOf :: "string \<Rightarrow> string"
  modelEditorCamera :: "string \<Rightarrow> string"
  worldTranslation :: "string \<Rightarrow> vec"
  worldCenterOfInterest :: "string \<Rightarrow> vec"
  worldMatrix :: "string \<Rightarrow> matrix"
  filterInstalled :: bool
  hudExists :: bool
  calls :: "call list"

definition host_call :: "call \<Rightarrow> host \<Rightarrow> host" where
  "host_call c h = h\<lparr>calls := calls h @ [c]\<rparr>"

subsection \<open>CameraControlFilter\<close>

definition clamp :: "'a::linorder \<Rightarrow> 'a \<Rightarrow> 'a \<Rightarrow> 'a" where
  "clamp val min_value max_value = max min_value (min max_value val)"

definition KEY_VECTORS :: "key \<rightharpoonup> vec" where
  "KEY_VECTORS = map_of
     [(Key_A, MVector (-1) 0 0),
      (Key_D, MVector 1 0 0),
      (Key_W, MVector 0 0 (-1)),
      (Key_S, MVector 0 0 1),
      (Key_E, MVector 0 1 0),
      (Key_Q, MVector 0 (-1) 0)]"

definition MOVE_SCALE_FACTOR :: real where
  "MOVE_SCALE_FACTOR = 1 / 10"

text \<open>The fields of the filter object; \<open>timerActive\<close> is \<^verbatim>\<open>moveTimer.isActive()\<close>.\<close>

record filter_state =
  moveStep :: real
  movingKeys :: "key set"
  altPressed :: bool
  timerActive :: bool

definition CameraControlFilter_init :: "real \<Rightarrow> filter_state" where
  "CameraControlFilter_init step =
     \<lparr>moveStep = step, movingKeys = {}, altPressed = False, timerActive = False\<rparr>"

definition startMovementTimer :: "filter_state \<Rightarrow> filter_state" where
  "startMovementTimer f =
     (if movingKeys f = {} \<and> \<not> timerActive f then f\<lparr>timerActive := True\<rparr> else f)"

definition stopMovementTimer :: "filter_state \<Rightarrow> filter_state" where
  "stopMovementTimer f = (if timerActive f then f\<lparr>timerActive := False\<rparr> else f)"

text \<open>
  \<^verbatim>\<open>eventFilter\<close>: the returned flag, the filter afterwards and the host afterwards.
  The branches are in the order of the source.
\<close>

fun eventFilter :: "filter_state \<Rightarrow> host \<Rightarrow> event \<Rightarrow> bool \<times> filter_state \<times> host" where
  "eventFilter f h (KeyPress k rep) =
     (if k = Key_Alt then (False, f\<lparr>altPressed := True\<rparr>, h)
      else if altPressed f \<and> k = Key_F
        then (False, f, host_call FrameSelected (host_call LookAtSelection h))
      else if altPressed f \<and> k \<in> dom KEY_VECTORS \<and> \<not> rep
        then (let f1 = startMovementTimer f
              in (False, f1\<lparr>movingKeys := insert k (movingKeys f1)\<rparr>, h))
      else (False, f, h))"
| "eventFilter f h (KeyRelease k rep) =
     (let f1 = (if k = Key_Alt then f\<lparr>altPressed := False, movingKeys := {}\<rparr> else f);
          f2 = (if \<not> rep \<and> k \<in> movingKeys f1
                then f1\<lparr>movingKeys := movingKeys f1 - {k}\<rparr> else f1);
          f3 = (if \<not> altPressed f2 \<or> movingKeys f2 = {}
                then stopMovementTimer f2 else f2)
      in (False, f3, h))"
| "eventFilter f h OtherEvent = (False, f, h)"

text \<open>A run of the filter over the events the main window delivers, in arrival order.\<close>

fun run_events :: "filter_state \<times> host \<Rightarrow> event list \<Rightarrow> filter_state \<times> host" where
  "run_events fh [] = fh"
| "run_events fh (ev # evs) = run_events (snd (eventFilter (fst fh) (snd fh) ev)) evs"

text \<open>
  \<^verbatim>\<open>moveCameraLocal\<close>: the focus check, then the queries, then the new position
  written back and a redraw. Python's \<^verbatim>\<open>not panel\<close> holds for \<^verbatim>\<open>None\<close> and
  for the empty string, and the \<^verbatim>\<open>or\<close> asks for the panel type only when a panel
  has the focus.
\<close>

definition moveCameraLocal :: "vec \<Rightarrow> real \<Rightarrow> host \<Rightarrow> host" where
  "moveCameraLocal localDir distance h =
     (let h1 = host_call GetPanelWithFocus h
      in case panelWithFocus h of
           None \<Rightarrow> h1
         | Some panel \<Rightarrow>
             if panel = [] then h1
             else
               let h2 = host_call (GetPanelTypeOf panel) h1
               in if panelTypeOf h panel \<noteq> ''modelPanel'' then h2
                  else
                    let cam = modelEditorCamera h panel;
                        h3 = host_call (ModelEditorCamera panel) h2;
                        camPos = worldTranslation h cam;
                        h4 = host_call (XformQuery cam) h3;
                        coiPos = worldCenterOfInterest h cam;
                        h5 = host_call (CameraWorldCOI cam) h4;
                        camMat = worldMatrix h cam;
                        h6 = host_call (GetAttrWorldMatrix cam) h5;
                        scaleMetric = vlength (coiPos - camPos);
                        scaledDistance = distance * scaleMetric * MOVE_SCALE_FACTOR;
                        worldDir = normal (vmulm localDir camMat);
                        newCamPos = camPos + vscale worldDir scaledDistance;
                        h7 = host_call (XformSet cam newCamPos)
                               (h6\<lparr>worldTranslation := (worldTranslation h6)(cam := newCamPos)\<rparr>)
                    in host_call Refresh h7)"

text \<open>
  The loop of \<^verbatim>\<open>moveCameraLoop\<close> adds the table entry of each held key to the
  accumulator, a key outside the table adding the zero vector. Python fixes no order for
  the iteration over a set; the model takes the keys in ascending order, and
  \<open>sum_keys_any_order\<close> below shows that no other order gives another sum.
\<close>

definition key_vector :: "key \<Rightarrow> vec" where
  "key_vector k = (case KEY_VECTORS k of Some v \<Rightarrow> v | None \<Rightarrow> MVector 0 0 0)"

fun sum_keys :: "key list \<Rightarrow> vec \<Rightarrow> vec" where
  "sum_keys [] moveVector = moveVector"
| "sum_keys (k # ks) moveVector = sum_keys ks (moveVector + key_vector k)"

definition moveCameraLoop :: "filter_state \<Rightarrow> host \<Rightarrow> host" where
  "moveCameraLoop f h =
     (if \<not> altPressed f \<or> movingKeys f = {} then h
      else
        let moveVector = sum_keys (sorted_list_of_set (movingKeys f)) (MVector 0 0 0)
        in if vlength moveVector > 0
           then moveCameraLocal (normal moveVector) (moveStep f) h
           else h)"

text \<open>The composite direction in the words of the specification: the vector sum of the
  table entries of the held keys.\<close>

definition composite_direction :: "key set \<Rightarrow> vec" where
  "composite_direction keys = (\<Sum>k\<in>keys. the (KEY_VECTORS k))"

subsection \<open>ViewportControlPanel\<close>

definition STEP_MIN :: real where "STEP_MIN = 0.01"
definition STEP_MAX :: real where "STEP_MAX = 0.20"

text \<open>
  The panel owns its filter. Of the widgets, the text of the toggle button is kept; the
  label that shows the step is a rendering of \<open>moveStep\<close> and has no field of its own.
\<close>

record panel =
  cameraFilter :: filter_state
  isInstalled :: bool
  enabledButtonText :: string

definition installCameraControls :: "panel \<times> host \<Rightarrow> panel \<times> host" where
  "installCameraControls ph =
     (let p = fst ph; h = snd ph;
          h1 = host_call InstallEventFilter (h\<lparr>filterInstalled := True\<rparr>);
          p1 = p\<lparr>isInstalled := True\<rparr>;
          h2 = host_call HeadsUpDisplayCreate (h1\<lparr>hudExists := True\<rparr>)
      in (p1, h2))"

definition uninstallCameraControls :: "panel \<times> host \<Rightarrow> panel \<times> host" where
  "uninstallCameraControls ph =
     (let p = fst ph; h = snd ph;
          h1 = host_call RemoveEventFilter (h\<lparr>filterInstalled := False\<rparr>);
          p1 = p\<lparr>isInstalled := False\<rparr>;
          h2 = host_call HeadsUpDisplayExists h1
      in if hudExists h1
         then (p1, host_call HeadsUpDisplayRemove (h2\<lparr>hudExists := False\<rparr>))
         else (p1, h2))"

definition onEnabledToggled :: "bool \<Rightarrow> panel \<times> host \<Rightarrow> panel \<times> host" where
  "onEnabledToggled checked ph =
     (let ph1 = (if checked \<and> \<not> isInstalled (fst ph) then installCameraControls ph
                 else if \<not> checked \<and> isInstalled (fst ph) then uninstallCameraControls ph
                 else ph)
      in ((fst ph1)\<lparr>enabledButtonText :=
             (if isInstalled (fst ph1) then ''DISABLE'' else ''ENABLE'')\<rparr>, snd ph1))"

definition onStepSliderChanged :: "int \<Rightarrow> panel \<Rightarrow> panel" where
  "onStepSliderChanged val p =
     (let step = clamp (real_of_int val / 100) STEP_MIN STEP_MAX
      in p\<lparr>cameraFilter := (cameraFilter p)\<lparr>moveStep := step\<rparr>\<rparr>)"

subsection \<open>Auxiliary definitions\<close>

text \<open>
  The invariant of the key tracker: the timer runs exactly when a key is held, and a key
  is held only while the chord is active.
\<close>

definition chord_inv :: "filter_state \<Rightarrow> bool" where
  "chord_inv f =
     ((timerActive f = (movingKeys f \<noteq> {})) \<and> (movingKeys f \<noteq> {} \<longrightarrow> altPressed f))"

text \<open>
  The host of the specification's scenario: a viewport has the focus, its camera
  \<^verbatim>\<open>persp\<close> is at (0, 0, 10) with its centre of interest at the origin and the
  identity as orientation.
\<close>

definition scenario_host :: host where
  "scenario_host =
     \<lparr>panelWithFocus = Some ''modelPanel4'',
      panelTypeOf = (\<lambda>p. ''modelPanel''),
      modelEditorCamera = (\<lambda>p. ''persp''),
      worldTranslation = (\<lambda>c. MVector 0 0 10),
      worldCenterOfInterest = (\<lambda>c. MVector 0 0 0),
      worldMatrix = (\<lambda>c. identity_matrix),
      filterInstalled = False,
      hudExists = False,
      calls = []\<rparr>"

section \<open>Properties\<close>

subsection \<open>Keys of the table\<close>

lemmas Key_defs =
  Key_A_def Key_D_def Key_E_def Key_F_def Key_Q_def Key_S_def Key_W_def Key_Alt_def

lemma KEY_VECTORS_W: "KEY_VECTORS Key_W = Some (MVector 0 0 (-1))"
  by (simp add: KEY_VECTORS_def Key_defs)

lemma KEY_VECTORS_A: "KEY_VECTORS Key_A = Some (MVector (-1) 0 0)"
  by (simp add: KEY_VECTORS_def Key_defs)

lemma KEY_VECTORS_D: "KEY_VECTORS Key_D = Some (MVector 1 0 0)"
  by (simp add: KEY_VECTORS_def Key_defs)

lemma Key_W_nav: "Key_W \<in> dom KEY_VECTORS"
  by (simp add: KEY_VECTORS_W domI)

lemma Key_W_not_Alt: "Key_W \<noteq> Key_Alt"
  by (simp add: Key_W_def Key_Alt_def)

lemma Key_W_not_F: "Key_W \<noteq> Key_F"
  by (simp add: Key_W_def Key_F_def)

lemma Key_F_not_Alt: "Key_F \<noteq> Key_Alt"
  by (simp add: Key_F_def Key_Alt_def)

lemma finite_dom_KEY_VECTORS: "finite (dom KEY_VECTORS)"
  by (simp add: KEY_VECTORS_def finite_dom_map_of)

subsection \<open>The key tracker and the timer\<close>

lemma chord_inv_init: "chord_inv (CameraControlFilter_init step)"
  by (simp add: chord_inv_def CameraControlFilter_init_def)

lemma chord_inv_eventFilter:
  "chord_inv f \<Longrightarrow> chord_inv (fst (snd (eventFilter f h ev)))"
  by (cases ev)
     (auto simp: chord_inv_def startMovementTimer_def stopMovementTimer_def Let_def)

lemma chord_inv_run_events:
  "chord_inv (fst fh) \<Longrightarrow> chord_inv (fst (run_events fh evs))"
  by (induction evs arbitrary: fh) (simp_all add: chord_inv_eventFilter)

text \<open>
  Claim C1. Start from a freshly constructed filter and process any finite sequence of
  events (presses and releases of any keys, repeated or not, and events of other types).
  In the state reached, the movement timer is active if and only if the chord flag is
  set and the set of held keys is not empty. The sequence is arbitrary, so this holds
  after each event of a run.
\<close>

theorem timer_active_iff_chord_and_keys:
  "timerActive (fst (run_events (CameraControlFilter_init step, h) evs)) =
     (altPressed (fst (run_events (CameraControlFilter_init step, h) evs)) \<and>
      movingKeys (fst (run_events (CameraControlFilter_init step, h) evs)) \<noteq> {})"
  using chord_inv_run_events [of "(CameraControlFilter_init step, h)" evs]
    chord_inv_init [of step]
  by (auto simp: chord_inv_def)

text \<open>
  The timer runs after Alt and W are pressed, also after a repeated press of W, and it
  has stopped once W is released.
\<close>

theorem timer_active_iff_chord_and_keys_witness:
  "timerActive (fst (run_events (CameraControlFilter_init 0.1, scenario_host)
     [KeyPress Key_Alt False, KeyPress Key_W False, KeyPress Key_W True]))
   \<and> \<not> timerActive (fst (run_events (CameraControlFilter_init 0.1, scenario_host)
     [KeyPress Key_Alt False, KeyPress Key_W False, KeyRelease Key_W False]))"
  using timer_active_iff_chord_and_keys [of "0.1" scenario_host
          "[KeyPress Key_Alt False, KeyPress Key_W False, KeyPress Key_W True]"]
        timer_active_iff_chord_and_keys [of "0.1" scenario_host
          "[KeyPress Key_Alt False, KeyPress Key_W False, KeyRelease Key_W False]"]
  by (simp add: CameraControlFilter_init_def startMovementTimer_def stopMovementTimer_def
        Key_W_nav Key_W_not_Alt Key_W_not_F)

text \<open>
  Claim C4. From every state of the filter, with any keys held, the chord flag set or
  not and the timer running or not, a release of the modifier key (repeated or not)
  leaves the chord flag false, the set of held keys empty and the timer inactive; the
  step and the host are untouched.
\<close>

theorem modifier_release_clears:
  "eventFilter f h (KeyRelease Key_Alt rep) =
     (False, f\<lparr>altPressed := False, movingKeys := {}, timerActive := False\<rparr>, h)"
  by (cases "timerActive f") (simp_all add: stopMovementTimer_def Let_def)

theorem modifier_release_clears_witness:
  "eventFilter \<lparr>moveStep = 0.1, movingKeys = {Key_W}, altPressed = True, timerActive = True\<rparr>
     scenario_host (KeyRelease Key_Alt False)
   = (False, \<lparr>moveStep = 0.1, movingKeys = {}, altPressed = False, timerActive = False\<rparr>,
      scenario_host)"
  using modifier_release_clears
    [of "\<lparr>moveStep = 0.1, movingKeys = {Key_W}, altPressed = True, timerActive = True\<rparr>"
        scenario_host False]
  by simp

text \<open>
  Claim C5, as stated: no event with the auto-repeat flag set changes the set of held
  keys, the modifier key included. It fails: with W held, a release of the modifier with
  the auto-repeat flag set empties the set, since the modifier branch of the release path
  comes before the test of the flag.
\<close>

theorem repeat_modifier_release_clears_keys:
  "movingKeys (fst (snd (eventFilter
      \<lparr>moveStep = 0.1, movingKeys = {Key_W}, altPressed = True, timerActive = True\<rparr>
      scenario_host (KeyRelease Key_Alt True)))) \<noteq> {Key_W}"
  by (simp add: stopMovementTimer_def)

text \<open>
  Claim C5, amended. In every state, an event with the auto-repeat flag set that is a
  press of any key, or a release of any key other than the modifier, leaves the set of
  held keys as it was.
\<close>

theorem repeat_keeps_keys:
  assumes "ev = KeyPress k True \<or> (ev = KeyRelease k True \<and> k \<noteq> Key_Alt)"
  shows "movingKeys (fst (snd (eventFilter f h ev))) = movingKeys f"
  using assms by (elim disjE conjE) (simp_all add: stopMovementTimer_def Let_def)

theorem repeat_keeps_keys_witness:
  "movingKeys (fst (snd (eventFilter
      \<lparr>moveStep = 0.1, movingKeys = {Key_W}, altPressed = True, timerActive = True\<rparr>
      scenario_host (KeyRelease Key_W True)))) = {Key_W}"
  using repeat_keeps_keys [of "KeyRelease Key_W True" Key_W
      "\<lparr>moveStep = 0.1, movingKeys = {Key_W}, altPressed = True, timerActive = True\<rparr>"
      scenario_host]
  by (simp add: Key_W_not_Alt)

text \<open>
  Claim C6, as stated: a press of the frame key with the auto-repeat flag set does not
  trigger the action. It fails: with the modifier held, such a press calls
  \<^verbatim>\<open>LookAtSelection\<close> and \<^verbatim>\<open>FrameSelected\<close>; the frame branch does not read the flag.
\<close>

theorem repeat_frame_press_triggers:
  "calls (snd (snd (eventFilter
      \<lparr>moveStep = 0.1, movingKeys = {}, altPressed = True, timerActive = False\<rparr>
      scenario_host (KeyPress Key_F True)))) = [LookAtSelection, FrameSelected]"
  by (simp add: Key_F_not_Alt host_call_def scenario_host_def)

text \<open>
  Claim C6, amended. While the modifier is held, every press event of the frame key,
  with the auto-repeat flag set or not, triggers the action exactly once: one call of
  \<^verbatim>\<open>LookAtSelection\<close> followed by one call of \<^verbatim>\<open>FrameSelected\<close>, and nothing else
  changes.
\<close>

theorem frame_press_triggers:
  assumes "altPressed f"
  shows "eventFilter f h (KeyPress Key_F rep) =
           (False, f, h\<lparr>calls := calls h @ [LookAtSelection, FrameSelected]\<rparr>)"
  using assms by (simp add: Key_F_not_Alt host_call_def)

theorem frame_press_triggers_witness:
  "eventFilter \<lparr>moveStep = 0.1, movingKeys = {}, altPressed = True, timerActive = False\<rparr>
     scenario_host (KeyPress Key_F False)
   = (False, \<lparr>moveStep = 0.1, movingKeys = {}, altPressed = True, timerActive = False\<rparr>,
      scenario_host\<lparr>calls := [LookAtSelection, FrameSelected]\<rparr>)"
  using frame_press_triggers
    [of "\<lparr>moveStep = 0.1, movingKeys = {}, altPressed = True, timerActive = False\<rparr>"
        scenario_host False]
  by (simp add: scenario_host_def)

text \<open>
  Claim C10. For every event and every state the event filter returns false: it
  observes the event and leaves it to the host's own handling.
\<close>

theorem eventFilter_returns_False: "fst (eventFilter f h ev) = False"
  by (cases ev) (simp_all add: Let_def)

theorem eventFilter_returns_False_witness:
  "\<not> fst (eventFilter \<lparr>moveStep = 0.1, movingKeys = {}, altPressed = True, timerActive = False\<rparr>
     scenario_host (KeyPress Key_W False))"
  using eventFilter_returns_False
    [of "\<lparr>moveStep = 0.1, movingKeys = {}, altPressed = True, timerActive = False\<rparr>"
        scenario_host "KeyPress Key_W False"]
  by simp

subsection \<open>The tick\<close>

lemma sum_keys_sum_list: "sum_keys ks a = a + sum_list (map key_vector ks)"
  by (induction ks arbitrary: a) (simp_all add: add.assoc)

text \<open>Whatever order the iteration takes the held keys in, the loop computes the same sum.\<close>

lemma sum_keys_any_order:
  assumes "distinct ks" and "set ks = K"
  shows "sum_keys ks a = a + (\<Sum>k\<in>K. key_vector k)"
  using assms sum.distinct_set_conv_list [of ks key_vector]
  by (simp add: sum_keys_sum_list)

lemma sum_keys_sorted:
  assumes "finite K"
  shows "sum_keys (sorted_list_of_set K) (MVector 0 0 0) = (\<Sum>k\<in>K. key_vector k)"
proof -
  have "sum_keys (sorted_list_of_set K) 0 = 0 + (\<Sum>k\<in>K. key_vector k)"
    using assms by (intro sum_keys_any_order) simp_all
  then show ?thesis by (simp add: zero_vec_def)
qed

lemma composite_direction_key_vector:
  assumes "K \<subseteq> dom KEY_VECTORS"
  shows "composite_direction K = (\<Sum>k\<in>K. key_vector k)"
  unfolding composite_direction_def
proof (rule sum.cong)
  fix k assume "k \<in> K"
  with assms obtain v where "KEY_VECTORS k = Some v" by blast
  then show "the (KEY_VECTORS k) = key_vector k" by (simp add: key_vector_def)
qed simp

lemma vlength_pos_iff: "vlength v > 0 \<longleftrightarrow> v \<noteq> 0"
proof (cases v)
  case (MVector a b c)
  have nonneg: "0 \<le> a * a + b * b + c * c"
    by simp
  have "a * a + b * b + c * c = 0 \<longleftrightarrow> a = 0 \<and> b = 0 \<and> c = 0"
    by (simp add: add_nonneg_eq_0_iff)
  with nonneg have "0 < a * a + b * b + c * c \<longleftrightarrow> \<not> (a = 0 \<and> b = 0 \<and> c = 0)"
    by linarith
  then show ?thesis using MVector by (simp add: vlength_def zero_vec_def)
qed

lemma vlength_axis: "vlength (MVector 0 0 c) = \<bar>c\<bar>"
  by (simp add: vlength_def)

lemma normal_forward: "normal (MVector 0 0 (-1)) = MVector 0 0 (-1)"
  by (simp add: normal_def vlength_axis vscale_def)

lemma composite_A_D: "composite_direction {Key_A, Key_D} = 0"
proof -
  have "Key_A \<noteq> Key_D" by (simp add: Key_defs)
  then show ?thesis
    by (simp add: composite_direction_def KEY_VECTORS_A KEY_VECTORS_D plus_vec_def zero_vec_def)
qed

text \<open>
  Claim C3. Let the held keys be any subset of the six keys of the direction table. If
  the chord is active and the vector sum of their table entries is not the zero vector,
  the tick moves the camera along the normalisation of that sum (with the configured
  step). If the sum is the zero vector, as for an opposite pair or for no key at all,
  the tick returns the host as it found it: no camera is moved and no call is logged.
\<close>

theorem composite_direction_used:
  assumes "movingKeys f \<subseteq> dom KEY_VECTORS"
  shows "(altPressed f \<and> composite_direction (movingKeys f) \<noteq> 0 \<longrightarrow>
            moveCameraLoop f h =
              moveCameraLocal (normal (composite_direction (movingKeys f))) (moveStep f) h)
       \<and> (composite_direction (movingKeys f) = 0 \<longrightarrow> moveCameraLoop f h = h)"
proof -
  have fin: "finite (movingKeys f)"
    using assms finite_dom_KEY_VECTORS by (rule finite_subset)
  have loop: "sum_keys (sorted_list_of_set (movingKeys f)) (MVector 0 0 0)
                = composite_direction (movingKeys f)"
    using fin assms by (simp add: sum_keys_sorted composite_direction_key_vector)
  have nonempty: "composite_direction (movingKeys f) \<noteq> 0 \<Longrightarrow> movingKeys f \<noteq> {}"
    by (auto simp: composite_direction_def)
  show ?thesis
    using nonempty by (auto simp: moveCameraLoop_def loop vlength_pos_iff Let_def)
qed

text \<open>With A and D held together the tick leaves the host of the scenario as it is.\<close>

theorem composite_direction_used_witness:
  "moveCameraLoop \<lparr>moveStep = 0.1, movingKeys = {Key_A, Key_D}, altPressed = True, timerActive = True\<rparr>
     scenario_host = scenario_host"
  using composite_direction_used
    [of "\<lparr>moveStep = 0.1, movingKeys = {Key_A, Key_D}, altPressed = True, timerActive = True\<rparr>"
        scenario_host]
  by (simp add: composite_A_D KEY_VECTORS_A KEY_VECTORS_D domI)

text \<open>
  Claim C2. When a panel has the focus and is a 3D viewport, the update with local
  direction \<open>d\<close> and step \<open>S\<close> moves the panel's camera from its position \<open>P\<close> to
  \<open>P + normal (d * M) * (S * distance (C, P) * MOVE_SCALE_FACTOR)\<close>, where \<open>C\<close> is the
  camera's centre of interest and \<open>M\<close> its orientation matrix. This holds for every
  direction, the unit ones included.
\<close>

theorem tick_position:
  assumes "panelWithFocus h = Some panel" and "panel \<noteq> []"
    and "panelTypeOf h panel = ''modelPanel''"
  shows "worldTranslation (moveCameraLocal d S h) (modelEditorCamera h panel) =
           worldTranslation h (modelEditorCamera h panel) +
           vscale (normal (vmulm d (worldMatrix h (modelEditorCamera h panel))))
             (S * vlength (worldCenterOfInterest h (modelEditorCamera h panel)
                            - worldTranslation h (modelEditorCamera h panel))
                * MOVE_SCALE_FACTOR)"
  using assms by (simp add: moveCameraLocal_def host_call_def Let_def)

text \<open>
  The scenario of the claim: step 0.1, the camera at (0, 0, 10), its centre of interest
  at the origin, the identity as orientation, and W held. The tick puts the camera at
  (0, 0, 9.9).
\<close>

theorem tick_position_witness:
  "worldTranslation
     (moveCameraLoop \<lparr>moveStep = 0.1, movingKeys = {Key_W}, altPressed = True, timerActive = True\<rparr>
        scenario_host) ''persp'' = MVector 0 0 9.9"
proof -
  have sum: "sum_keys (sorted_list_of_set {Key_W}) (MVector 0 0 0) = MVector 0 0 (-1)"
    by (simp add: key_vector_def KEY_VECTORS_W plus_vec_def)
  have loop: "moveCameraLoop \<lparr>moveStep = 0.1, movingKeys = {Key_W}, altPressed = True, timerActive = True\<rparr>
                scenario_host = moveCameraLocal (MVector 0 0 (-1)) 0.1 scenario_host"
    using sum by (simp add: moveCameraLoop_def normal_forward vlength_axis)
  have "worldTranslation (moveCameraLocal (MVector 0 0 (-1)) 0.1 scenario_host) ''persp''
          = MVector 0 0 9.9"
    using tick_position [of scenario_host "''modelPanel4''" "MVector 0 0 (-1)" "0.1"]
    by (simp add: scenario_host_def vmulm_def identity_matrix_def normal_forward minus_vec_def
          plus_vec_def vlength_axis vscale_def MOVE_SCALE_FACTOR_def)
  with loop show ?thesis by simp
qed

text \<open>
  Claim C9. When no panel has the focus (the host reports none, or an empty name), or
  the focused panel is not a \<^verbatim>\<open>modelPanel\<close>, the tick returns the host with nothing
  changed but the log of calls, and the calls it adds are focus checks only (the query of
  the focused panel and of its type): no camera position changes, no other query is
  made, no position is written and no redraw is requested.
\<close>

theorem unfocused_tick_noop:
  assumes "panelWithFocus h = None \<or> panelWithFocus h = Some [] \<or>
           (\<exists>p. panelWithFocus h = Some p \<and> panelTypeOf h p \<noteq> ''modelPanel'')"
  shows "worldTranslation (moveCameraLoop f h) = worldTranslation h \<and>
         (\<exists>cs. moveCameraLoop f h = h\<lparr>calls := calls h @ cs\<rparr> \<and>
               set cs \<subseteq> insert GetPanelWithFocus (range GetPanelTypeOf))"
proof -
  have local: "\<exists>cs. moveCameraLocal d S h = h\<lparr>calls := calls h @ cs\<rparr> \<and>
               set cs \<subseteq> insert GetPanelWithFocus (range GetPanelTypeOf)" for d S
  proof (cases "panelWithFocus h")
    case None
    then have "moveCameraLocal d S h = h\<lparr>calls := calls h @ [GetPanelWithFocus]\<rparr>"
      by (simp add: moveCameraLocal_def host_call_def)
    then show ?thesis by (intro exI [of _ "[GetPanelWithFocus]"]) simp
  next
    case (Some p)
    show ?thesis
    proof (cases "p = []")
      case True
      with Some have "moveCameraLocal d S h = h\<lparr>calls := calls h @ [GetPanelWithFocus]\<rparr>"
        by (simp add: moveCameraLocal_def host_call_def)
      then show ?thesis by (intro exI [of _ "[GetPanelWithFocus]"]) simp
    next
      case False
      with Some assms have "panelTypeOf h p \<noteq> ''modelPanel''" by auto
      with Some False
      have "moveCameraLocal d S h = h\<lparr>calls := calls h @ [GetPanelWithFocus, GetPanelTypeOf p]\<rparr>"
        by (simp add: moveCameraLocal_def host_call_def Let_def)
      then show ?thesis by (intro exI [of _ "[GetPanelWithFocus, GetPanelTypeOf p]"]) simp
    qed
  qed
  have idle: "\<exists>cs. h = h\<lparr>calls := calls h @ cs\<rparr> \<and>
               set cs \<subseteq> insert GetPanelWithFocus (range GetPanelTypeOf)"
    by (intro exI [of _ "[]"]) simp
  have ex: "\<exists>cs. moveCameraLoop f h = h\<lparr>calls := calls h @ cs\<rparr> \<and>
               set cs \<subseteq> insert GetPanelWithFocus (range GetPanelTypeOf)"
  proof -
    have "moveCameraLoop f h = h \<or> (\<exists>d. moveCameraLoop f h = moveCameraLocal d (moveStep f) h)"
      by (auto simp: moveCameraLoop_def Let_def)
    then show ?thesis
    proof (elim disjE exE)
      assume "moveCameraLoop f h = h"
      with idle show ?thesis by simp
    next
      fix d assume "moveCameraLoop f h = moveCameraLocal d (moveStep f) h"
      with local [of d "moveStep f"] show ?thesis by simp
    qed
  qed
  then obtain cs where "moveCameraLoop f h = h\<lparr>calls := calls h @ cs\<rparr>" by blast
  then have "worldTranslation (moveCameraLoop f h) = worldTranslation h" by simp
  with ex show ?thesis by blast
qed

text \<open>With an outliner panel focused and W held, the tick logs the two focus queries
  and the camera stays at (0, 0, 10).\<close>

theorem unfocused_tick_noop_witness:
  "moveCameraLoop \<lparr>moveStep = 0.1, movingKeys = {Key_W}, altPressed = True, timerActive = True\<rparr>
     (scenario_host\<lparr>panelWithFocus := Some ''outlinerPanel1'', panelTypeOf := (\<lambda>p. ''outlinerPanel'')\<rparr>)
   = scenario_host\<lparr>panelWithFocus := Some ''outlinerPanel1'', panelTypeOf := (\<lambda>p. ''outlinerPanel''),
        calls := [GetPanelWithFocus, GetPanelTypeOf ''outlinerPanel1'']\<rparr>
   \<and> worldTranslation (moveCameraLoop \<lparr>moveStep = 0.1, movingKeys = {Key_W}, altPressed = True, timerActive = True\<rparr>
     (scenario_host\<lparr>panelWithFocus := Some ''outlinerPanel1'', panelTypeOf := (\<lambda>p. ''outlinerPanel'')\<rparr>))
     = (\<lambda>c. MVector 0 0 10)"
proof -
  let ?f = "\<lparr>moveStep = 0.1, movingKeys = {Key_W}, altPressed = True, timerActive = True\<rparr>"
  let ?h = "scenario_host\<lparr>panelWithFocus := Some ''outlinerPanel1'', panelTypeOf := (\<lambda>p. ''outlinerPanel'')\<rparr>"
  have pos: "worldTranslation (moveCameraLoop ?f ?h) = (\<lambda>c. MVector 0 0 10)"
    using unfocused_tick_noop [of ?h ?f] by (simp add: scenario_host_def)
  have "moveCameraLoop ?f ?h = ?h\<lparr>calls := [GetPanelWithFocus, GetPanelTypeOf ''outlinerPanel1'']\<rparr>"
    by (simp add: moveCameraLoop_def key_vector_def KEY_VECTORS_W plus_vec_def vlength_axis
          moveCameraLocal_def host_call_def scenario_host_def)
  with pos show ?thesis by simp
qed

subsection \<open>The panel\<close>

text \<open>
  Claim C7. For every integer value of the slider, in its configured range or not, the
  handler stores into the filter's \<open>moveStep\<close> the value divided by 100 and clamped to
  \<open>[STEP_MIN, STEP_MAX] = [0.01, 0.20]\<close>: a value below 1 stores 0.01, a value above 20
  stores 0.20, and a value from 1 to 20 stores the value divided by 100. This is what
  \<open>clamp\<close> returns for these arguments, the stored step lies in the interval, and
  nothing else of the panel or of its filter changes.
\<close>

theorem step_clamped:
  "moveStep (cameraFilter (onStepSliderChanged val p)) =
     (if val < 1 then 1 / 100 else if 20 < val then 20 / 100 else real_of_int val / 100)
   \<and> moveStep (cameraFilter (onStepSliderChanged val p)) =
       clamp (real_of_int val / 100) STEP_MIN STEP_MAX
   \<and> STEP_MIN = 1 / 100 \<and> STEP_MAX = 20 / 100
   \<and> STEP_MIN \<le> moveStep (cameraFilter (onStepSliderChanged val p))
   \<and> moveStep (cameraFilter (onStepSliderChanged val p)) \<le> STEP_MAX
   \<and> isInstalled (onStepSliderChanged val p) = isInstalled p
   \<and> enabledButtonText (onStepSliderChanged val p) = enabledButtonText p
   \<and> cameraFilter (onStepSliderChanged val p) =
       (cameraFilter p)\<lparr>moveStep := moveStep (cameraFilter (onStepSliderChanged val p))\<rparr>"
proof -
  have stored: "clamp (real_of_int val / 100) STEP_MIN STEP_MAX =
     (if val < 1 then 1 / 100 else if 20 < val then 20 / 100 else real_of_int val / 100)"
    by (auto simp: clamp_def STEP_MIN_def STEP_MAX_def)
  have step: "moveStep (cameraFilter (onStepSliderChanged val p)) =
     clamp (real_of_int val / 100) STEP_MIN STEP_MAX"
    by (simp add: onStepSliderChanged_def)
  have rest: "isInstalled (onStepSliderChanged val p) = isInstalled p
     \<and> enabledButtonText (onStepSliderChanged val p) = enabledButtonText p
     \<and> cameraFilter (onStepSliderChanged val p) =
       (cameraFilter p)\<lparr>moveStep := clamp (real_of_int val / 100) STEP_MIN STEP_MAX\<rparr>"
    by (simp add: onStepSliderChanged_def)
  have bounds: "STEP_MIN = 1 / 100 \<and> STEP_MAX = 20 / 100"
    by (simp add: STEP_MIN_def STEP_MAX_def)
  have range: "STEP_MIN \<le> clamp (real_of_int val / 100) STEP_MIN STEP_MAX
     \<and> clamp (real_of_int val / 100) STEP_MIN STEP_MAX \<le> STEP_MAX"
    by (simp add: clamp_def STEP_MIN_def STEP_MAX_def)
  show ?thesis
    using stored step rest bounds range by simp
qed

text \<open>
  Three values of the slider: 500, far above the range, stores 0.2; 5, inside it,
  stores 0.05; and -3, below it, stores 0.01.
\<close>

theorem step_clamped_witness:
  "moveStep (cameraFilter (onStepSliderChanged 500
     \<lparr>cameraFilter = CameraControlFilter_init 0.1, isInstalled = False, enabledButtonText = ''ENABLE''\<rparr>))
   = 0.2
   \<and> moveStep (cameraFilter (onStepSliderChanged 5
     \<lparr>cameraFilter = CameraControlFilter_init 0.1, isInstalled = False, enabledButtonText = ''ENABLE''\<rparr>))
   = 0.05
   \<and> moveStep (cameraFilter (onStepSliderChanged (-3)
     \<lparr>cameraFilter = CameraControlFilter_init 0.1, isInstalled = False, enabledButtonText = ''ENABLE''\<rparr>))
   = 0.01"
  using step_clamped [of 500
     "\<lparr>cameraFilter = CameraControlFilter_init 0.1, isInstalled = False, enabledButtonText = ''ENABLE''\<rparr>"]
    step_clamped [of 5
     "\<lparr>cameraFilter = CameraControlFilter_init 0.1, isInstalled = False, enabledButtonText = ''ENABLE''\<rparr>"]
    step_clamped [of "-3"
     "\<lparr>cameraFilter = CameraControlFilter_init 0.1, isInstalled = False, enabledButtonText = ''ENABLE''\<rparr>"]
  by simp

text \<open>
  Claim C8. Calling the toggle handler with \<open>checked = True\<close> a second time, with no
  disable in between, leaves the panel and the host (its filter subscription, its
  overlay and its log of calls) exactly as the first call left them, with \<open>isInstalled\<close>
  true; so no second subscription is made. The same holds for a second call with
  \<open>checked = False\<close>, with \<open>isInstalled\<close> false.
\<close>

theorem enable_idempotent:
  "onEnabledToggled True (onEnabledToggled True ph) = onEnabledToggled True ph
   \<and> isInstalled (fst (onEnabledToggled True ph))
   \<and> onEnabledToggled False (onEnabledToggled False ph) = onEnabledToggled False ph
   \<and> \<not> isInstalled (fst (onEnabledToggled False ph))"
  by (simp add: onEnabledToggled_def installCameraControls_def uninstallCameraControls_def Let_def)

text \<open>Enabling a fresh panel twice: one subscription and one overlay call are logged.\<close>

theorem enable_idempotent_witness:
  "onEnabledToggled True (onEnabledToggled True
     (\<lparr>cameraFilter = CameraControlFilter_init 0.1, isInstalled = False, enabledButtonText = ''ENABLE''\<rparr>,
      scenario_host))
   = (\<lparr>cameraFilter = CameraControlFilter_init 0.1, isInstalled = True, enabledButtonText = ''DISABLE''\<rparr>,
      scenario_host\<lparr>filterInstalled := True, hudExists := True,
        calls := [InstallEventFilter, HeadsUpDisplayCreate]\<rparr>)"
proof -
  let ?ph = "(\<lparr>cameraFilter = CameraControlFilter_init 0.1, isInstalled = False,
                 enabledButtonText = ''ENABLE''\<rparr>, scenario_host)"
  have once: "onEnabledToggled True ?ph =
     (\<lparr>cameraFilter = CameraControlFilter_init 0.1, isInstalled = True, enabledButtonText = ''DISABLE''\<rparr>,
      scenario_host\<lparr>filterInstalled := True, hudExists := True,
        calls := [InstallEventFilter, HeadsUpDisplayCreate]\<rparr>)"
    by (simp add: onEnabledToggled_def installCameraControls_def host_call_def scenario_host_def)
  from enable_idempotent [of ?ph]
  have "onEnabledToggled True (onEnabledToggled True ?ph) = onEnabledToggled True ?ph"
    by (rule conjunct1)
  with once show ?thesis by simp
qed

end
